theory Spec2Isabelle
  imports Complex_Main "HOL-Library.Product_Lexorder" "HOL-Library.Char_ord"
    "HOL-Library.List_Lexorder"
begin

section \<open>Numbers\<close>

text \<open>
  Stored amounts are finite numbers (the schemas reject anything else), modelled as exact
  reals; the rounding error of IEEE doubles is not modelled.  A division whose divisor is
  not guarded in the source can leave the finite numbers, so its result is a \<open>jsnum\<close>:
  a finite number, one of the two infinities, or NaN.
\<close>

datatype jsnum = Num real | PosInf | NegInf | NaN

definition js_div :: "real \<Rightarrow> real \<Rightarrow> jsnum" where
  "js_div a b =
     (if b \<noteq> 0 then Num (a / b)
      else if a = 0 then NaN
      else if 0 < a then PosInf else NegInf)"

fun js_mul :: "jsnum \<Rightarrow> real \<Rightarrow> jsnum" where
  "js_mul (Num x) y = Num (x * y)"
| "js_mul PosInf y = (if 0 < y then PosInf else if y < 0 then NegInf else NaN)"
| "js_mul NegInf y = (if 0 < y then NegInf else if y < 0 then PosInf else NaN)"
| "js_mul NaN y = NaN"

fun js_add :: "jsnum \<Rightarrow> jsnum \<Rightarrow> jsnum" where
  "js_add (Num x) (Num y) = Num (x + y)"
| "js_add NaN _ = NaN"
| "js_add _ NaN = NaN"
| "js_add PosInf NegInf = NaN"
| "js_add NegInf PosInf = NaN"
| "js_add PosInf _ = PosInf"
| "js_add _ PosInf = PosInf"
| "js_add NegInf _ = NegInf"
| "js_add _ NegInf = NegInf"

text \<open>\<open>a > c\<close> for a finite \<open>c\<close>: every comparison with NaN is false.\<close>

fun js_gt :: "jsnum \<Rightarrow> real \<Rightarrow> bool" where
  "js_gt (Num x) c = (c < x)"
| "js_gt PosInf c = True"
| "js_gt NegInf c = False"
| "js_gt NaN c = False"

text \<open>Division by a finite number, \<open>Math.round\<close> and \<open>Math.ceil\<close> beyond the finite
  numbers: the infinities and NaN pass through.\<close>

fun js_divr :: "jsnum \<Rightarrow> real \<Rightarrow> jsnum" where
  "js_divr (Num x) c = js_div x c"
| "js_divr PosInf c = (if 0 \<le> c then PosInf else NegInf)"
| "js_divr NegInf c = (if 0 \<le> c then NegInf else PosInf)"
| "js_divr NaN c = NaN"

fun js_round :: "jsnum \<Rightarrow> jsnum" where
  "js_round (Num x) = Num (real_of_int (round x))"
| "js_round PosInf = PosInf"
| "js_round NegInf = NegInf"
| "js_round NaN = NaN"

fun js_ceil :: "jsnum \<Rightarrow> jsnum" where
  "js_ceil (Num x) = Num (real_of_int (ceiling x))"
| "js_ceil PosInf = PosInf"
| "js_ceil NegInf = NegInf"
| "js_ceil NaN = NaN"

text \<open>\<open>Math.round(x * 100) / 100\<close>; \<open>Math.round\<close> rounds a half towards plus infinity,
  as \<^const>\<open>round\<close> does.\<close>

definition round2 :: "real \<Rightarrow> real" where
  "round2 x = real_of_int (round (x * 100)) / 100"

section \<open>Strings\<close>

text \<open>\<open>toLowerCase\<close> and \<open>trim\<close> on the ASCII range.\<close>

definition lower_char :: "char \<Rightarrow> char" where
  "lower_char c =
     (let n = (of_char c :: nat) in if 65 \<le> n \<and> n \<le> 90 then char_of (n + 32) else c)"

definition toLowerCase :: "string \<Rightarrow> string" where
  "toLowerCase s = map lower_char s"

definition is_ws :: "char \<Rightarrow> bool" where
  "is_ws c = ((of_char c :: nat) \<in> {9, 10, 11, 12, 13, 32})"

definition trim :: "string \<Rightarrow> string" where
  "trim s = rev (dropWhile is_ws (rev (dropWhile is_ws s)))"

section \<open>The budget model\<close>

record budget =
  b_id :: nat
  b_user :: nat
  b_category :: string
  b_amount :: real
  b_month :: int
  b_year :: int
  b_isActive :: bool
  b_notes :: "string option"

definition categories :: "string list" where
  "categories =
     [''groceries'', ''utilities'', ''transportation'', ''entertainment'', ''healthcare'',
      ''dining'', ''shopping'', ''education'', ''travel'', ''housing'', ''insurance'',
      ''savings'', ''other'']"

text \<open>The schema's validators, path by path.\<close>

definition valid_category :: "string \<Rightarrow> bool" where
  "valid_category c = (c \<in> set categories)"

definition valid_amount :: "real \<Rightarrow> bool" where
  "valid_amount a = (1 / 100 \<le> a \<and> 0 < a)"

definition valid_month :: "int \<Rightarrow> bool" where
  "valid_month m = (1 \<le> m \<and> m \<le> 12)"

definition valid_year :: "int \<Rightarrow> bool" where
  "valid_year y = (2000 \<le> y \<and> y \<le> 2100)"

definition valid_notes :: "string option \<Rightarrow> bool" where
  "valid_notes n = (case n of None \<Rightarrow> True | Some s \<Rightarrow> length s \<le> 500)"

definition valid_budget :: "budget \<Rightarrow> bool" where
  "valid_budget b =
     (valid_category (b_category b) \<and> valid_amount (b_amount b) \<and> valid_month (b_month b)
      \<and> valid_year (b_year b) \<and> valid_notes (b_notes b))"

text \<open>The key of the unique compound index \<open>{user, category, month, year}\<close>.\<close>

definition budget_key :: "budget \<Rightarrow> nat \<times> string \<times> int \<times> int" where
  "budget_key b = (b_user b, b_category b, b_month b, b_year b)"

text \<open>The collection, with the counter that stands for the generation of fresh ids.\<close>

record db =
  budgets :: "budget list"
  next_id :: nat

definition findOne :: "nat \<times> string \<times> int \<times> int \<Rightarrow> db \<Rightarrow> budget option" where
  "findOne k d = find (\<lambda>b. budget_key b = k) (budgets d)"

fun update_by_id :: "nat \<Rightarrow> (budget \<Rightarrow> budget) \<Rightarrow> budget list \<Rightarrow> budget list" where
  "update_by_id i f [] = []"
| "update_by_id i f (b # bs) = (if b_id b = i then f b # bs else b # update_by_id i f bs)"

section \<open>createOrUpdateBudget\<close>

text \<open>
  The request body after JSON decoding: \<open>parseInt\<close> and \<open>parseFloat\<close> are the identity on
  the integers and finite numbers it carries.  The empty string and 0 are the falsy values
  of the first check.  There is no field for the active flag.
\<close>

record budget_req =
  rq_category :: string
  rq_amount :: real
  rq_month :: int
  rq_year :: int
  rq_notes :: "string option"

datatype outcome =
    Created budget
  | Updated budget
  | MissingFields
  | ValidationFailed
  | AlreadyExists

text \<open>
  The update document is \<open>{amount, notes, isActive: true}\<close>, and the update validators
  run on the paths it sets.  When the request has no notes the key is undefined, and what
  the library then does depends on its version (the key is dropped, or the path is set
  to null); \<open>omitUndefined\<close> selects the first.
\<close>

definition apply_update :: "bool \<Rightarrow> budget_req \<Rightarrow> budget \<Rightarrow> budget" where
  "apply_update omitUndefined rq b =
     b\<lparr>b_amount := rq_amount rq,
       b_notes := (case rq_notes rq of
                     Some n \<Rightarrow> Some (trim n)
                   | None \<Rightarrow> if omitUndefined then b_notes b else None),
       b_isActive := True\<rparr>"

definition new_budget :: "nat \<Rightarrow> nat \<Rightarrow> budget_req \<Rightarrow> budget" where
  "new_budget i uid rq =
     \<lparr>b_id = i, b_user = uid, b_category = toLowerCase (rq_category rq),
      b_amount = rq_amount rq, b_month = rq_month rq, b_year = rq_year rq,
      b_isActive = True, b_notes = map_option trim (rq_notes rq)\<rparr>"

text \<open>\<open>save\<close>: the document validators, then the unique index of the collection.\<close>

definition save :: "budget \<Rightarrow> db \<Rightarrow> outcome \<times> db" where
  "save b d =
     (if \<not> valid_budget b then (ValidationFailed, d)
      else if budget_key b \<in> set (map budget_key (budgets d)) then (AlreadyExists, d)
      else (Created b, d\<lparr>budgets := budgets d @ [b], next_id := Suc (next_id d)\<rparr>))"

text \<open>The tuple a request names, as the query of \<open>findOne\<close> spells it.\<close>

definition req_key :: "nat \<Rightarrow> budget_req \<Rightarrow> nat \<times> string \<times> int \<times> int" where
  "req_key uid rq = (uid, toLowerCase (rq_category rq), rq_month rq, rq_year rq)"

definition createOrUpdateBudget :: "bool \<Rightarrow> nat \<Rightarrow> budget_req \<Rightarrow> db \<Rightarrow> outcome \<times> db" where
  "createOrUpdateBudget omitUndefined uid rq d =
     (if rq_category rq = [] \<or> rq_amount rq = 0 \<or> rq_month rq = 0 \<or> rq_year rq = 0
      then (MissingFields, d)
      else
        case findOne (req_key uid rq) d of
          Some existingBudget \<Rightarrow>
            (let b' = apply_update omitUndefined rq existingBudget in
             if valid_amount (rq_amount rq) \<and> valid_notes (map_option trim (rq_notes rq))
             then (Updated b',
                   d\<lparr>budgets := update_by_id (b_id existingBudget)
                                   (apply_update omitUndefined rq) (budgets d)\<rparr>)
             else (ValidationFailed, d))
        | None \<Rightarrow> save (new_budget (next_id d) uid rq) d)"

text \<open>Any sequence of create requests, each with the user who sends it.\<close>

fun create_all :: "bool \<Rightarrow> (nat \<times> budget_req) list \<Rightarrow> db \<Rightarrow> db" where
  "create_all ou [] d = d"
| "create_all ou ((uid, rq) # rs) d = create_all ou rs (snd (createOrUpdateBudget ou uid rq d))"

definition empty_db :: db where
  "empty_db = \<lparr>budgets = [], next_id = 0\<rparr>"

text \<open>Ids are unique and below the counter; at most one record per index key.\<close>

definition db_inv :: "db \<Rightarrow> bool" where
  "db_inv d =
     (distinct (map budget_key (budgets d)) \<and> distinct (map b_id (budgets d))
      \<and> list_all (\<lambda>b. b_id b < next_id d) (budgets d))"

section \<open>Dates\<close>

text \<open>
  A \<open>Date\<close> read through its local calendar fields: year, month (1 to 12), day of the
  month, and the milliseconds since local midnight.  Dates compare in that order.
\<close>

record date =
  d_year :: int
  d_month :: int
  d_day :: int
  d_ms :: int

definition date_key :: "date \<Rightarrow> int \<times> int \<times> int \<times> int" where
  "date_key d = (d_year d, d_month d, d_day d, d_ms d)"

definition date_le :: "date \<Rightarrow> date \<Rightarrow> bool" where
  "date_le a b = (date_key a \<le> date_key b)"

definition leap_year :: "int \<Rightarrow> bool" where
  "leap_year y =
     (if y mod 400 = 0 then True else if y mod 100 = 0 then False else y mod 4 = 0)"

definition days_in_month :: "int \<Rightarrow> int \<Rightarrow> int" where
  "days_in_month y m =
     (if m = 2 then (if leap_year y then 29 else 28)
      else if m = 4 \<or> m = 6 \<or> m = 9 \<or> m = 11 then 30 else 31)"

text \<open>The constructor maps a year from 0 to 99 into the twentieth century.\<close>

definition full_year :: "int \<Rightarrow> int" where
  "full_year y = (if 0 \<le> y \<and> y \<le> 99 then 1900 + y else y)"

text \<open>\<open>new Date(year, monthIndex, 1)\<close>: a month index outside 0 to 11 carries into the year.\<close>

definition date_start :: "int \<Rightarrow> int \<Rightarrow> date" where
  "date_start y mi =
     \<lparr>d_year = full_year y + mi div 12, d_month = mi mod 12 + 1, d_day = 1, d_ms = 0\<rparr>"

text \<open>\<open>new Date(year, monthIndex, 0, 23, 59, 59, 999)\<close>: day 0 is the last day of the month
  before the one the index names.\<close>

definition date_end :: "int \<Rightarrow> int \<Rightarrow> date" where
  "date_end y mi =
     (let yy = full_year y + mi div 12; mm = mi mod 12 in
      if mm = 0 then \<lparr>d_year = yy - 1, d_month = 12, d_day = 31, d_ms = 86399999\<rparr>
      else \<lparr>d_year = yy, d_month = mm, d_day = days_in_month yy mm, d_ms = 86399999\<rparr>)"

text \<open>What \<open>new Date()\<close> returns on a running server: a day that exists, not before the
  year 2000.\<close>

definition wf_date :: "date \<Rightarrow> bool" where
  "wf_date d =
     (2000 \<le> d_year d \<and> 1 \<le> d_month d \<and> d_month d \<le> 12 \<and> 1 \<le> d_day d
      \<and> d_day d \<le> days_in_month (d_year d) (d_month d) \<and> 0 \<le> d_ms d \<and> d_ms d < 86400000)"

section \<open>Expenses and the aggregation stages\<close>

record expense =
  e_user :: nat
  e_description :: string
  e_amount :: real
  e_category :: string
  e_date :: date

definition in_range :: "date \<Rightarrow> date \<Rightarrow> expense \<Rightarrow> bool" where
  "in_range startDate endDate e = (date_le startDate (e_date e) \<and> date_le (e_date e) endDate)"

text \<open>\<open>$group\<close> with \<open>_id: null\<close>: no document for an empty input, else one with the sums.\<close>

record stats =
  st_totalAmount :: real
  st_count :: nat

definition group_all :: "expense list \<Rightarrow> stats list" where
  "group_all ms =
     (if ms = [] then []
      else [\<lparr>st_totalAmount = sum_list (map e_amount ms), st_count = length ms\<rparr>])"

text \<open>\<open>$group\<close> with \<open>_id: '$category'\<close>: one document for each category that occurs.\<close>

record cat_stats =
  cs_id :: string
  cs_totalAmount :: real
  cs_count :: nat
  cs_avgAmount :: real

definition group_category :: "expense list \<Rightarrow> cat_stats list" where
  "group_category ms =
     map (\<lambda>c. let g = filter (\<lambda>e. e_category e = c) ms in
                \<lparr>cs_id = c, cs_totalAmount = sum_list (map e_amount g), cs_count = length g,
                 cs_avgAmount = sum_list (map e_amount g) / real (length g)\<rparr>)
         (remdups (map e_category ms))"

section \<open>getBudgets\<close>

record spending =
  sp_totalSpent :: real
  sp_expenseCount :: nat
  sp_remainingBudget :: real
  sp_percentageUsed :: real
  sp_status :: string
  sp_isOverBudget :: bool
  sp_daysInPeriod :: int
  sp_daysRemaining :: int

record comparison =
  c_budget :: budget
  c_spending :: spending

record budgets_summary =
  bs_totalBudgets :: nat
  bs_totalBudgetAmount :: real
  bs_totalSpent :: real
  bs_budgetsExceeded :: nat
  bs_budgetsInWarning :: nat
  bs_overallPercentageUsed :: real

record budgets_response =
  br_budgets :: "comparison list"
  br_summary :: budgets_summary

text \<open>The query: a parameter that is absent or empty is \<open>None\<close>; any other value of
  \<open>includeInactive\<close> is truthy.\<close>

record budgets_query =
  q_month :: "int option"
  q_year :: "int option"
  q_category :: "string option"
  q_includeInactive :: "string option"

definition budget_filter :: "nat \<Rightarrow> budgets_query \<Rightarrow> budget \<Rightarrow> bool" where
  "budget_filter uid q b =
     (b_user b = uid
      \<and> (case q_month q of None \<Rightarrow> True | Some m \<Rightarrow> b_month b = m)
      \<and> (case q_year q of None \<Rightarrow> True | Some y \<Rightarrow> b_year b = y)
      \<and> (case q_category q of None \<Rightarrow> True
          | Some c \<Rightarrow> if c \<noteq> ''all'' then b_category b = toLowerCase c else True)
      \<and> (case q_includeInactive q of None \<Rightarrow> b_isActive b | Some s \<Rightarrow> True))"

definition find_budgets :: "nat \<Rightarrow> budgets_query \<Rightarrow> budget list \<Rightarrow> budget list" where
  "find_budgets uid q bs =
     sort_key (\<lambda>b. (- b_year b, - b_month b, b_category b)) (filter (budget_filter uid q) bs)"

definition budget_status :: "real \<Rightarrow> string" where
  "budget_status percentageUsed =
     (if percentageUsed \<ge> 100 then ''exceeded''
      else if percentageUsed \<ge> 90 then ''warning''
      else if percentageUsed \<ge> 75 then ''caution''
      else ''within_budget'')"

definition compare_budget :: "nat \<Rightarrow> date \<Rightarrow> expense list \<Rightarrow> budget \<Rightarrow> comparison" where
  "compare_budget uid now es budget =
     (let startDate = date_start (b_year budget) (b_month budget - 1);
          endDate = date_end (b_year budget) (b_month budget);
          expenseStats = group_all (filter (\<lambda>e. e_user e = uid
                             \<and> e_category e = b_category budget
                             \<and> in_range startDate endDate e) es);
          totalSpent = (case expenseStats of [] \<Rightarrow> 0 | s # _ \<Rightarrow> st_totalAmount s);
          expenseCount = (case expenseStats of [] \<Rightarrow> 0 | s # _ \<Rightarrow> st_count s);
          remainingBudget = b_amount budget - totalSpent;
          percentageUsed =
            (if b_amount budget > 0 then (totalSpent / b_amount budget) * 100 else 0);
          daysInPeriod = d_day (date_end (b_year budget) (b_month budget))
      in \<lparr>c_budget = budget,
          c_spending =
            \<lparr>sp_totalSpent = totalSpent, sp_expenseCount = expenseCount,
             sp_remainingBudget = remainingBudget,
             sp_percentageUsed = round2 percentageUsed,
             sp_status = budget_status percentageUsed,
             sp_isOverBudget = (totalSpent > b_amount budget),
             sp_daysInPeriod = daysInPeriod,
             sp_daysRemaining = max 0 (daysInPeriod - d_day now)\<rparr>\<rparr>)"

definition getBudgets_on :: "nat \<Rightarrow> date \<Rightarrow> expense list \<Rightarrow> budget list \<Rightarrow> budgets_response" where
  "getBudgets_on uid now es bs =
     (let budgetComparisons = map (compare_budget uid now es) bs;
          totalBudgetAmount = foldl (\<lambda>sum budget. sum + b_amount budget) 0 bs;
          totalSpent = foldl (\<lambda>sum comp. sum + sp_totalSpent (c_spending comp)) 0
                         budgetComparisons
      in \<lparr>br_budgets = budgetComparisons,
          br_summary =
            \<lparr>bs_totalBudgets = length bs,
             bs_totalBudgetAmount = totalBudgetAmount,
             bs_totalSpent = totalSpent,
             bs_budgetsExceeded =
               length (filter (\<lambda>comp. sp_isOverBudget (c_spending comp)) budgetComparisons),
             bs_budgetsInWarning =
               length (filter (\<lambda>comp. sp_status (c_spending comp) = ''warning'')
                         budgetComparisons),
             bs_overallPercentageUsed =
               (if totalBudgetAmount > 0
                then real_of_int (round ((totalSpent / totalBudgetAmount) * 10000)) / 100
                else 0)\<rparr>\<rparr>)"

definition getBudgets ::
  "nat \<Rightarrow> date \<Rightarrow> budgets_query \<Rightarrow> budget list \<Rightarrow> expense list \<Rightarrow> budgets_response" where
  "getBudgets uid now q all_budgets es = getBudgets_on uid now es (find_budgets uid q all_budgets)"

section \<open>getBudgetDashboard\<close>

record cat_spent =
  ce_id :: string
  ce_totalSpent :: real
  ce_expenseCount :: nat

definition group_spent :: "expense list \<Rightarrow> cat_spent list" where
  "group_spent ms =
     map (\<lambda>c. let g = filter (\<lambda>e. e_category e = c) ms in
                \<lparr>ce_id = c, ce_totalSpent = sum_list (map e_amount g),
                 ce_expenseCount = length g\<rparr>)
         (remdups (map e_category ms))"

record dash_spending =
  dsp_totalSpent :: real
  dsp_remainingBudget :: real
  dsp_percentageUsed :: real
  dsp_expenseCount :: nat

record visual =
  vi_status :: string
  vi_statusMessage :: string
  vi_alertLevel :: string
  vi_progressBarWidth :: real
  vi_color :: string

record dash_item =
  di_budget :: budget
  di_spending :: dash_spending
  di_visualIndicator :: visual

record dash_summary =
  ds_totalBudgets :: nat
  ds_totalBudgetAmount :: real
  ds_totalSpent :: real
  ds_totalRemaining :: real
  ds_overallPercentage :: real
  ds_budgetsExceeded :: nat
  ds_budgetsInWarning :: nat

record dash_response =
  dr_dashboardData :: "dash_item list"
  dr_summary :: dash_summary
  dr_period :: "int \<times> int"

text \<open>The three values the threshold chain assigns together: status, message, level.\<close>

definition visual_status :: "real \<Rightarrow> string \<times> string \<times> string" where
  "visual_status percentageUsed =
     (if percentageUsed \<ge> 100 then (''danger'', ''Budget exceeded'', ''high'')
      else if percentageUsed \<ge> 90 then (''warning'', ''Budget almost exceeded'', ''medium'')
      else if percentageUsed \<ge> 75 then (''caution'', ''Approaching budget limit'', ''low'')
      else (''success'', ''Within budget'', ''none''))"

definition status_color :: "string \<Rightarrow> string" where
  "status_color st =
     (if st = ''success'' then ''#10B981''
      else if st = ''caution'' then ''#F59E0B''
      else if st = ''warning'' then ''#EF4444'' else ''#DC2626'')"

definition expense_map :: "cat_spent list \<Rightarrow> (string \<rightharpoonup> cat_spent)" where
  "expense_map gs = foldl (\<lambda>m g. m(ce_id g \<mapsto> g)) Map.empty gs"

definition dash_entry :: "(string \<rightharpoonup> cat_spent) \<Rightarrow> budget \<Rightarrow> dash_item" where
  "dash_entry expenseMap budget =
     (let expenseData = (case expenseMap (b_category budget) of
                           Some g \<Rightarrow> g
                         | None \<Rightarrow> \<lparr>ce_id = [], ce_totalSpent = 0, ce_expenseCount = 0\<rparr>);
          totalSpent = ce_totalSpent expenseData;
          remainingBudget = b_amount budget - totalSpent;
          percentageUsed =
            (if b_amount budget > 0 then (totalSpent / b_amount budget) * 100 else 0);
          (st, statusMessage, alertLevel) = visual_status percentageUsed
      in \<lparr>di_budget = budget,
          di_spending =
            \<lparr>dsp_totalSpent = totalSpent, dsp_remainingBudget = remainingBudget,
             dsp_percentageUsed = round2 percentageUsed,
             dsp_expenseCount = ce_expenseCount expenseData\<rparr>,
          di_visualIndicator =
            \<lparr>vi_status = st, vi_statusMessage = statusMessage, vi_alertLevel = alertLevel,
             vi_progressBarWidth = min percentageUsed 100,
             vi_color = status_color st\<rparr>\<rparr>)"

record period_query =
  pq_month :: "int option"
  pq_year :: "int option"

definition getBudgetDashboard ::
  "nat \<Rightarrow> date \<Rightarrow> period_query \<Rightarrow> budget list \<Rightarrow> expense list \<Rightarrow> dash_response" where
  "getBudgetDashboard uid now q all_budgets es =
     (let targetMonth = (case pq_month q of Some m \<Rightarrow> m | None \<Rightarrow> d_month now);
          targetYear = (case pq_year q of Some y \<Rightarrow> y | None \<Rightarrow> d_year now);
          bs = filter (\<lambda>b. b_user b = uid \<and> b_month b = targetMonth
                            \<and> b_year b = targetYear \<and> b_isActive b) all_budgets;
          startDate = date_start targetYear (targetMonth - 1);
          endDate = date_end targetYear targetMonth;
          expensesByCategory =
            group_spent (filter (\<lambda>e. e_user e = uid \<and> in_range startDate endDate e) es);
          expenseMap = expense_map expensesByCategory;
          dashboardData = map (dash_entry expenseMap) bs;
          totalBudgetAmount = foldl (\<lambda>sum budget. sum + b_amount budget) 0 bs;
          totalSpent = foldl (\<lambda>sum item. sum + dsp_totalSpent (di_spending item)) 0
                         dashboardData;
          overallPercentage =
            (if totalBudgetAmount > 0 then (totalSpent / totalBudgetAmount) * 100 else 0)
      in \<lparr>dr_dashboardData = dashboardData,
          dr_summary =
            \<lparr>ds_totalBudgets = length bs,
             ds_totalBudgetAmount = totalBudgetAmount,
             ds_totalSpent = totalSpent,
             ds_totalRemaining = totalBudgetAmount - totalSpent,
             ds_overallPercentage = round2 overallPercentage,
             ds_budgetsExceeded =
               length (filter (\<lambda>item. vi_status (di_visualIndicator item) = ''danger'')
                         dashboardData),
             ds_budgetsInWarning =
               length (filter (\<lambda>item. vi_status (di_visualIndicator item) = ''warning'')
                         dashboardData)\<rparr>,
          dr_period = (targetMonth, targetYear)\<rparr>)"

section \<open>generateSpendingInsights\<close>

text \<open>
  An insight keeps its type, level and title, and the number that its \<open>value\<close> string
  renders; the message, a sentence built around the same number, is left out.
\<close>

record insight =
  i_type :: string
  i_level :: string
  i_title :: string
  i_value :: jsnum

record insight_data =
  totalSpending :: real
  averagePerDay :: jsnum
  categoryBreakdown :: "cat_stats list"
  monthOverMonthChange :: real
  daysInMonth :: int
  isCurrentMonth :: bool
  currentDay :: int
  topExpenses :: "expense list"

text \<open>The five blocks of the generator; each takes the list so far and returns it,
  with its insight pushed at the end when the block's condition holds.\<close>

definition push_trend :: "insight_data \<Rightarrow> insight list \<Rightarrow> insight list" where
  "push_trend data insights =
     (if \<bar>monthOverMonthChange data\<bar> > 10
      then insights @
        [\<lparr>i_type = ''trend'',
          i_level = (if \<bar>monthOverMonthChange data\<bar> > 25 then ''warning'' else ''info''),
          i_title = ''Monthly Spending '' @
            (if monthOverMonthChange data > 0 then ''increased'' else ''decreased''),
          i_value = Num (monthOverMonthChange data)\<rparr>]
      else insights)"

definition push_category :: "insight_data \<Rightarrow> insight list \<Rightarrow> insight list" where
  "push_category data insights =
     (case categoryBreakdown data of
        [] \<Rightarrow> insights
      | topCategory # _ \<Rightarrow>
          (let percentage =
                 js_mul (js_div (cs_totalAmount topCategory) (totalSpending data)) 100
           in insights @
             [\<lparr>i_type = ''category'',
               i_level = (if js_gt percentage 40 then ''warning'' else ''info''),
               i_title = ''Top Spending Category'',
               i_value = Num (cs_totalAmount topCategory)\<rparr>]))"

definition push_projection :: "insight_data \<Rightarrow> insight list \<Rightarrow> insight list" where
  "push_projection data insights =
     (if isCurrentMonth data
      then (let projectedMonthly =
                  js_mul (averagePerDay data) (real_of_int (daysInMonth data))
            in insights @
              [\<lparr>i_type = ''projection'', i_level = ''info'',
                i_title = ''Monthly Projection'', i_value = projectedMonthly\<rparr>])
      else insights)"

definition push_expense :: "insight_data \<Rightarrow> insight list \<Rightarrow> insight list" where
  "push_expense data insights =
     (case topExpenses data of
        [] \<Rightarrow> insights
      | highestExpense # _ \<Rightarrow>
          (let percentageOfTotal =
                 js_mul (js_div (e_amount highestExpense) (totalSpending data)) 100
           in if js_gt percentageOfTotal 15
              then insights @
                [\<lparr>i_type = ''expense'',
                  i_level = (if js_gt percentageOfTotal 25 then ''warning'' else ''caution''),
                  i_title = ''Large Single Expense'',
                  i_value = Num (e_amount highestExpense)\<rparr>]
              else insights))"

definition push_distribution :: "insight_data \<Rightarrow> insight list \<Rightarrow> insight list" where
  "push_distribution data insights =
     (if length (categoryBreakdown data) \<ge> 3
      then (let topThreePercentage =
                  foldl (\<lambda>sum cat. js_add sum
                           (js_mul (js_div (cs_totalAmount cat) (totalSpending data)) 100))
                    (Num 0) (take 3 (categoryBreakdown data))
            in if js_gt topThreePercentage 80
               then insights @
                 [\<lparr>i_type = ''distribution'', i_level = ''info'',
                   i_title = ''Concentrated Spending'', i_value = topThreePercentage\<rparr>]
               else insights)
      else insights)"

definition generateSpendingInsights :: "insight_data \<Rightarrow> insight list" where
  "generateSpendingInsights data =
     (let insights = [];
          insights = push_trend data insights;
          insights = push_category data insights;
          insights = push_projection data insights;
          insights = push_expense data insights;
          insights = push_distribution data insights
      in insights)"



section \<open>getMonthlyExpenseSummary\<close>

record month_summary =
  ms_month :: int
  ms_year :: int
  ms_totalSpending :: real
  ms_totalExpenses :: nat
  ms_averagePerExpense :: real
  ms_averagePerDay :: jsnum
  ms_daysInMonth :: int
  ms_daysTracked :: int

record month_comparison =
  mc_prevMonth :: int
  mc_prevYear :: int
  mc_prevTotal :: real
  mc_monthOverMonthChange :: real
  mc_changeType :: string

record cat_share =
  sh_stats :: cat_stats
  sh_percentage :: jsnum

record month_response =
  mr_summary :: month_summary
  mr_comparison :: month_comparison
  mr_categoryBreakdown :: "cat_share list"
  mr_topExpenses :: "expense list"
  mr_insights :: "insight list"

text \<open>
  The handler once the month and the year are known, and then with the defaults of the
  query.  The response is without its daily and weekly patterns and its display strings.
  The handler reads the clock once for \<open>currentDate\<close> and once more for \<open>currentDay\<close>;
  the model has one reading for both.
\<close>

definition monthly_summary ::
  "nat \<Rightarrow> date \<Rightarrow> int \<Rightarrow> int \<Rightarrow> expense list \<Rightarrow> month_response" where
  "monthly_summary uid currentDate targetMonth targetYear es =
     (let startDate = date_start targetYear (targetMonth - 1);
          endDate = date_end targetYear targetMonth;
          daysInMonth = d_day (date_end targetYear targetMonth);
          currentDay = d_day currentDate;
          isCurrentMonth =
            (targetMonth = d_month currentDate \<and> targetYear = d_year currentDate);
          matching = filter (\<lambda>e. e_user e = uid \<and> in_range startDate endDate e) es;
          expenses = rev (sort_key (\<lambda>e. date_key (e_date e)) matching);
          totalExpenses = length expenses;
          totalSpending = foldl (\<lambda>sum expense. sum + e_amount expense) 0 expenses;
          averagePerExpense =
            (if totalExpenses > 0 then totalSpending / real totalExpenses else 0);
          averagePerDay =
            (if isCurrentMonth then js_div totalSpending (real_of_int currentDay)
             else js_div totalSpending (real_of_int daysInMonth));
          categoryBreakdown = sort_key (\<lambda>g. - cs_totalAmount g) (group_category matching);
          topExpenses = take 5 (sort_key (\<lambda>e. - e_amount e) expenses);
          prevMonth = (if targetMonth = 1 then 12 else targetMonth - 1);
          prevYear = (if targetMonth = 1 then targetYear - 1 else targetYear);
          prevStartDate = date_start prevYear (prevMonth - 1);
          prevEndDate = date_end prevYear prevMonth;
          prevMonthStats =
            group_all (filter (\<lambda>e. e_user e = uid \<and> in_range prevStartDate prevEndDate e) es);
          prevMonthTotal = (case prevMonthStats of [] \<Rightarrow> 0 | s # _ \<Rightarrow> st_totalAmount s);
          monthOverMonthChange =
            (if prevMonthTotal > 0
             then ((totalSpending - prevMonthTotal) / prevMonthTotal) * 100 else 0);
          insights = generateSpendingInsights
            \<lparr>totalSpending = totalSpending, averagePerDay = averagePerDay,
             categoryBreakdown = categoryBreakdown,
             monthOverMonthChange = monthOverMonthChange, daysInMonth = daysInMonth,
             isCurrentMonth = isCurrentMonth, currentDay = currentDay,
             topExpenses = topExpenses\<rparr>
      in \<lparr>mr_summary =
            \<lparr>ms_month = targetMonth, ms_year = targetYear,
             ms_totalSpending = totalSpending, ms_totalExpenses = totalExpenses,
             ms_averagePerExpense = averagePerExpense, ms_averagePerDay = averagePerDay,
             ms_daysInMonth = daysInMonth,
             ms_daysTracked = (if isCurrentMonth then currentDay else daysInMonth)\<rparr>,
          mr_comparison =
            \<lparr>mc_prevMonth = prevMonth, mc_prevYear = prevYear, mc_prevTotal = prevMonthTotal,
             mc_monthOverMonthChange = round2 monthOverMonthChange,
             mc_changeType =
               (if monthOverMonthChange > 0 then ''increase''
                else if monthOverMonthChange < 0 then ''decrease'' else ''no_change'')\<rparr>,
          mr_categoryBreakdown =
            map (\<lambda>cat. \<lparr>sh_stats = cat,
                         sh_percentage =
                           js_divr (js_round (js_mul
                             (js_div (cs_totalAmount cat) totalSpending) 10000)) 100\<rparr>)
              categoryBreakdown,
          mr_topExpenses = topExpenses,
          mr_insights = insights\<rparr>)"

definition getMonthlyExpenseSummary ::
  "nat \<Rightarrow> date \<Rightarrow> period_query \<Rightarrow> expense list \<Rightarrow> month_response" where
  "getMonthlyExpenseSummary uid currentDate q es =
     (let targetMonth = (case pq_month q of Some m \<Rightarrow> m | None \<Rightarrow> d_month currentDate);
          targetYear = (case pq_year q of Some y \<Rightarrow> y | None \<Rightarrow> d_year currentDate)
      in monthly_summary uid currentDate targetMonth targetYear es)"

section \<open>getExpenses: the page and its pagination object\<close>

record pagination =
  currentPage :: int
  totalPages :: jsnum
  totalExpenses :: nat
  hasNext :: bool
  hasPrev :: bool
  pg_limit :: int

datatype server_error = InternalServerError

text \<open>
  The cursor over the documents that match the filter, in sort order.  The database
  rejects a negative skip, reads a limit of 0 as no limit and a negative limit as its
  absolute value.  The handler takes the page and the limit from the query, 1 and 10
  when they are absent; of its response the model keeps the page of documents and the
  pagination object.
\<close>

definition cursor :: "int \<Rightarrow> int \<Rightarrow> 'a list \<Rightarrow> server_error + 'a list" where
  "cursor skip limit ms =
     (if skip < 0 then Inl InternalServerError
      else Inr (let rest = drop (nat skip) ms in
                if limit = 0 then rest else take (nat \<bar>limit\<bar>) rest))"

definition getExpenses ::
  "int option \<Rightarrow> int option \<Rightarrow> expense list
     \<Rightarrow> server_error + (expense list \<times> pagination)" where
  "getExpenses page_param limit_param ms =
     (let page = (case page_param of Some p \<Rightarrow> p | None \<Rightarrow> 1);
          limit = (case limit_param of Some l \<Rightarrow> l | None \<Rightarrow> 10);
          skip = (page - 1) * limit in
      case cursor skip limit ms of
        Inl err \<Rightarrow> Inl err
      | Inr expenses \<Rightarrow>
          (let total = length ms in
           Inr (expenses,
                \<lparr>currentPage = page,
                 totalPages = js_ceil (js_div (real total) (real_of_int limit)),
                 totalExpenses = total,
                 hasNext = (skip + int (length expenses) < int total),
                 hasPrev = (page > 1),
                 pg_limit = limit\<rparr>)))"

section \<open>Sample data\<close>

definition r1 :: budget_req where
  "r1 = \<lparr>rq_category = ''Dining'', rq_amount = 80, rq_month = 5, rq_year = 2024,
          rq_notes = Some '' lunch ''\<rparr>"

definition r2 :: budget_req where
  "r2 = \<lparr>rq_category = ''dining'', rq_amount = 90, rq_month = 5, rq_year = 2024,
          rq_notes = None\<rparr>"

definition b80 :: budget where
  "b80 = \<lparr>b_id = 0, b_user = 1, b_category = ''dining'', b_amount = 80, b_month = 5,
           b_year = 2024, b_isActive = True, b_notes = Some ''lunch''\<rparr>"

definition paused_db :: db where
  "paused_db = \<lparr>budgets = [b80\<lparr>b_isActive := False\<rparr>], next_id = 1\<rparr>"

definition may24 :: date where
  "may24 = \<lparr>d_year = 2024, d_month = 5, d_day = 10, d_ms = 0\<rparr>"

definition jun24 :: date where
  "jun24 = \<lparr>d_year = 2024, d_month = 6, d_day = 3, d_ms = 0\<rparr>"

definition dining :: "real \<Rightarrow> date \<Rightarrow> expense" where
  "dining a d =
     \<lparr>e_user = 1, e_description = ''lunch'', e_amount = a, e_category = ''dining'',
      e_date = d\<rparr>"

definition dining_budget :: "real \<Rightarrow> budget" where
  "dining_budget a =
     \<lparr>b_id = 0, b_user = 1, b_category = ''dining'', b_amount = a, b_month = 5,
      b_year = 2024, b_isActive = True, b_notes = None\<rparr>"

definition no_query :: budgets_query where
  "no_query = \<lparr>q_month = None, q_year = None, q_category = None, q_includeInactive = None\<rparr>"

definition may_query :: period_query where
  "may_query = \<lparr>pq_month = Some 5, pq_year = Some 2024\<rparr>"




definition at_limit :: budgets_response where
  "at_limit = getBudgets 1 jun24 no_query [dining_budget 100] [dining 100 may24]"

definition at_limit_dashboard :: dash_response where
  "at_limit_dashboard =
     getBudgetDashboard 1 jun24 may_query [dining_budget 100] [dining 100 may24]"

text \<open>100 spent in May 2024 and 115 in June; 10 spent in April and nothing after.\<close>

definition trend_expenses :: "expense list" where
  "trend_expenses =
     [dining 100 may24, dining 115 \<lparr>d_year = 2024, d_month = 6, d_day = 1, d_ms = 0\<rparr>]"

definition april_expenses :: "expense list" where
  "april_expenses = [dining 10 \<lparr>d_year = 2024, d_month = 4, d_day = 3, d_ms = 0\<rparr>]"

definition no_period :: period_query where
  "no_period = \<lparr>pq_month = None, pq_year = None\<rparr>"

definition empty_current :: month_response where
  "empty_current = getMonthlyExpenseSummary 1 jun24 no_period []"

definition five :: "expense list" where
  "five = map (\<lambda>a. dining a may24) [1, 2, 3, 4, 5]"


section \<open>The budget collection\<close>

lemma update_by_id_map:
  "(\<And>b. g (f b) = g b) \<Longrightarrow> map g (update_by_id i f bs) = map g bs"
  by (induction bs) auto

lemma apply_update_key [simp]: "budget_key (apply_update ou rq b) = budget_key b"
  by (simp add: apply_update_def budget_key_def)

lemma apply_update_id [simp]: "b_id (apply_update ou rq b) = b_id b"
  by (simp add: apply_update_def)

lemma new_budget_key [simp]: "budget_key (new_budget i uid rq) = req_key uid rq"
  by (simp add: new_budget_def budget_key_def req_key_def)

text \<open>With unique ids, the update by id reaches the record the query by key found.\<close>

lemma find_update_by_id:
  assumes "distinct (map b_id bs)" and "find (\<lambda>x. budget_key x = k) bs = Some b"
    and "\<And>x. budget_key (f x) = budget_key x"
  shows "find (\<lambda>x. budget_key x = k) (update_by_id (b_id b) f bs) = Some (f b)"
  using assms(1,2)
proof (induction bs)
  case Nil
  then show ?case by simp
next
  case (Cons x xs)
  show ?case
  proof (cases "budget_key x = k")
    case True
    with Cons.prems have "b = x" by simp
    with True show ?thesis by (simp add: assms(3))
  next
    case False
    with Cons.prems have f: "find (\<lambda>x. budget_key x = k) xs = Some b" by simp
    then have "b \<in> set xs" by (auto simp: find_Some_iff)
    with Cons.prems have "b_id x \<noteq> b_id b" by auto
    with False f Cons show ?thesis by simp
  qed
qed

lemma create_keeps_inv:
  assumes "db_inv d"
  shows "db_inv (snd (createOrUpdateBudget ou uid rq d))"
proof -
  have ids: "list_all (\<lambda>b. b_id b < n) bs = list_all (\<lambda>i. i < n) (map b_id bs)"
    for n and bs :: "budget list"
    by (simp add: list.pred_map comp_def)
  have upd: "db_inv (d\<lparr>budgets := update_by_id i (apply_update ou rq) (budgets d)\<rparr>)" for i
    using assms by (simp add: db_inv_def ids update_by_id_map)
  have "db_inv (snd (save (new_budget (next_id d) uid rq) d))"
    using assms
    by (auto simp: save_def db_inv_def new_budget_def list_all_iff)
  with upd assms show ?thesis
    by (simp add: createOrUpdateBudget_def Let_def split: option.splits)
qed

lemma create_all_keeps_inv: "db_inv d \<Longrightarrow> db_inv (create_all ou rs d)"
  by (induction rs arbitrary: d) (auto simp: create_keeps_inv)

text \<open>The lookup before the insert leaves the unique index nothing to reject.\<close>

lemma never_AlreadyExists: "fst (createOrUpdateBudget ou uid rq d) \<noteq> AlreadyExists"
  by (auto simp: createOrUpdateBudget_def Let_def save_def findOne_def find_None_iff
      split: option.splits)

lemma update_existing:
  assumes "findOne (req_key uid rq) d = Some b"
  shows "createOrUpdateBudget ou uid rq d =
    (if rq_category rq \<noteq> [] \<and> rq_month rq \<noteq> 0 \<and> rq_year rq \<noteq> 0
        \<and> valid_amount (rq_amount rq) \<and> valid_notes (map_option trim (rq_notes rq))
     then (Updated (apply_update ou rq b),
           d\<lparr>budgets := update_by_id (b_id b) (apply_update ou rq) (budgets d)\<rparr>)
     else (if rq_category rq = [] \<or> rq_amount rq = 0 \<or> rq_month rq = 0 \<or> rq_year rq = 0
           then MissingFields else ValidationFailed, d))"
  using assms
  by (auto simp: createOrUpdateBudget_def Let_def valid_amount_def apply_update_def)

lemma findOne_after_update:
  assumes "db_inv d" and "findOne k d = Some b"
  shows "findOne k (d\<lparr>budgets := update_by_id (b_id b) (apply_update ou rq) (budgets d)\<rparr>)
         = Some (apply_update ou rq b)"
  using assms by (simp add: findOne_def db_inv_def find_update_by_id)

text \<open>
  C1.  From a collection with at most one record per (user, category, month, year), any
  sequence of create requests leads to a collection with at most one record per tuple.
  There, a further request for a tuple that has a record leaves the list of tuples as it
  is; when the request passes the checks, the one record of the tuple carries the new
  amount and the new notes, and otherwise nothing changes.
\<close>

theorem one_budget_per_tuple:
  assumes "db_inv d0"
  shows "(let d = create_all ou rs d0 in
          distinct (map budget_key (budgets d)) \<and>
          (\<forall>b. findOne (req_key uid rq) d = Some b \<longrightarrow>
             (let out = fst (createOrUpdateBudget ou uid rq d);
                  d' = snd (createOrUpdateBudget ou uid rq d);
                  b' = apply_update ou rq b in
              map budget_key (budgets d') = map budget_key (budgets d) \<and>
              (if rq_category rq \<noteq> [] \<and> rq_month rq \<noteq> 0 \<and> rq_year rq \<noteq> 0
                  \<and> valid_amount (rq_amount rq) \<and> valid_notes (map_option trim (rq_notes rq))
               then out = Updated b' \<and> findOne (req_key uid rq) d' = Some b'
                    \<and> b_id b' = b_id b \<and> b_amount b' = rq_amount rq
                    \<and> (case rq_notes rq of
                          Some n \<Rightarrow> b_notes b' = Some (trim n)
                        | None \<Rightarrow> True)
               else d' = d \<and> (out = MissingFields \<or> out = ValidationFailed)))))"
proof -
  define d where "d = create_all ou rs d0"
  have inv: "db_inv d"
    unfolding d_def using assms by (rule create_all_keeps_inv)
  have 1: "distinct (map budget_key (budgets d))"
    using inv by (simp add: db_inv_def)
  have 2: "(let out = fst (createOrUpdateBudget ou uid rq d);
                d' = snd (createOrUpdateBudget ou uid rq d);
                b' = apply_update ou rq b in
              map budget_key (budgets d') = map budget_key (budgets d) \<and>
              (if rq_category rq \<noteq> [] \<and> rq_month rq \<noteq> 0 \<and> rq_year rq \<noteq> 0
                  \<and> valid_amount (rq_amount rq) \<and> valid_notes (map_option trim (rq_notes rq))
               then out = Updated b' \<and> findOne (req_key uid rq) d' = Some b'
                    \<and> b_id b' = b_id b \<and> b_amount b' = rq_amount rq
                    \<and> (case rq_notes rq of
                          Some n \<Rightarrow> b_notes b' = Some (trim n)
                        | None \<Rightarrow> True)
               else d' = d \<and> (out = MissingFields \<or> out = ValidationFailed)))"
    if ex: "findOne (req_key uid rq) d = Some b" for b
    unfolding update_existing [OF ex]
    by (simp add: findOne_after_update [OF inv ex] update_by_id_map)
       (simp add: apply_update_def split: option.splits)
  from 1 2 show ?thesis
    unfolding d_def Let_def by blast
qed

theorem one_budget_per_tuple_witness:
  "db_inv empty_db \<and>
   findOne (req_key 1 r2) (create_all True [(1, r1)] empty_db) = Some b80 \<and>
   valid_amount (rq_amount r2) \<and>
   distinct (map budget_key (budgets (create_all True [(1, r1)] empty_db))) \<and>
   fst (createOrUpdateBudget True 1 r2 (create_all True [(1, r1)] empty_db))
     = Updated (b80\<lparr>b_amount := 90\<rparr>) \<and>
   length (budgets (snd (createOrUpdateBudget True 1 r2 (create_all True [(1, r1)] empty_db))))
     = 1"
proof -
  have h: "db_inv empty_db"
    by code_simp
  have f: "findOne (req_key 1 r2) (create_all True [(1, r1)] empty_db) = Some b80"
    by code_simp
  have ok: "rq_category r2 \<noteq> [] \<and> rq_month r2 \<noteq> 0 \<and> rq_year r2 \<noteq> 0
     \<and> valid_amount (rq_amount r2) \<and> valid_notes (map_option trim (rq_notes r2))"
    by code_simp
  have u: "apply_update True r2 b80 = b80\<lparr>b_amount := 90\<rparr>"
    by code_simp
  have l: "length (budgets (create_all True [(1, r1)] empty_db)) = 1"
    by code_simp
  from one_budget_per_tuple [OF h, of True "[(1, r1)]" 1 r2] f ok u
  have t: "distinct (map budget_key (budgets (create_all True [(1, r1)] empty_db))) \<and>
     map budget_key (budgets (snd (createOrUpdateBudget True 1 r2
        (create_all True [(1, r1)] empty_db))))
       = map budget_key (budgets (create_all True [(1, r1)] empty_db)) \<and>
     fst (createOrUpdateBudget True 1 r2 (create_all True [(1, r1)] empty_db))
       = Updated (b80\<lparr>b_amount := 90\<rparr>)"
    by (simp add: Let_def)
  then have "length (map budget_key (budgets (snd (createOrUpdateBudget True 1 r2
        (create_all True [(1, r1)] empty_db)))))
       = length (map budget_key (budgets (create_all True [(1, r1)] empty_db)))"
    by (simp only:)
  with l have "length (budgets (snd (createOrUpdateBudget True 1 r2
        (create_all True [(1, r1)] empty_db)))) = 1"
    by (simp only: length_map)
  with t h f ok show ?thesis
    by blast
qed

text \<open>
  C10.  A create request that passes the checks and names a tuple that has a record
  leaves that record active, whatever its flag was before; the request has no field
  for the flag.
\<close>

theorem create_reactivates_budget:
  assumes "db_inv d" and "findOne (req_key uid rq) d = Some b"
    and "rq_category rq \<noteq> []" and "rq_month rq \<noteq> 0" and "rq_year rq \<noteq> 0"
    and "valid_amount (rq_amount rq)" and "valid_notes (map_option trim (rq_notes rq))"
  shows "\<exists>b'. fst (createOrUpdateBudget ou uid rq d) = Updated b'
           \<and> findOne (req_key uid rq) (snd (createOrUpdateBudget ou uid rq d)) = Some b'
           \<and> b_id b' = b_id b \<and> b_isActive b'"
proof -
  have "b_isActive (apply_update ou rq b)"
    by (simp add: apply_update_def)
  with assms show ?thesis
    by (simp add: update_existing findOne_after_update)
qed

theorem create_reactivates_budget_witness:
  "db_inv paused_db
   \<and> findOne (req_key 1 r2) paused_db = Some (b80\<lparr>b_isActive := False\<rparr>)
   \<and> rq_category r2 \<noteq> [] \<and> rq_month r2 \<noteq> 0 \<and> rq_year r2 \<noteq> 0
   \<and> valid_amount (rq_amount r2)
   \<and> valid_notes (map_option trim (rq_notes r2))
   \<and> (\<exists>b'. fst (createOrUpdateBudget False 1 r2 paused_db) = Updated b'
         \<and> findOne (req_key 1 r2) (snd (createOrUpdateBudget False 1 r2 paused_db)) = Some b'
         \<and> b_id b' = b_id (b80\<lparr>b_isActive := False\<rparr>) \<and> b_isActive b')"
proof -
  have h: "db_inv paused_db"
    by code_simp
  have f: "findOne (req_key 1 r2) paused_db = Some (b80\<lparr>b_isActive := False\<rparr>)"
    by code_simp
  have ok: "rq_category r2 \<noteq> []" "rq_month r2 \<noteq> 0" "rq_year r2 \<noteq> 0"
    "valid_amount (rq_amount r2)"
    "valid_notes (map_option trim (rq_notes r2))"
    by code_simp+
  from create_reactivates_budget [OF h f ok] h f ok show ?thesis
    by blast
qed

section \<open>Budget comparisons\<close>



lemma foldl_add_sum: "foldl (\<lambda>s x. s + f x) a xs = (a::real) + sum_list (map f xs)"
  by (induction xs arbitrary: a) auto


lemma group_all_count:
  "(case group_all ms of [] \<Rightarrow> 0 | s # _ \<Rightarrow> st_count s) = length ms"
  by (simp add: group_all_def)

















section \<open>Summaries over the budgets in scope\<close>

lemma compare_budget_fields:
  "c_budget (compare_budget uid now es budget) = budget"
  "sp_isOverBudget (c_spending (compare_budget uid now es budget))
     = (sp_totalSpent (c_spending (compare_budget uid now es budget)) > b_amount budget)"
  by (simp_all add: compare_budget_def Let_def)

lemma getBudgets_summary:
  "br_budgets (getBudgets_on uid now es bs) = map (compare_budget uid now es) bs"
  "bs_totalBudgetAmount (br_summary (getBudgets_on uid now es bs)) = sum_list (map b_amount bs)"
  "bs_totalSpent (br_summary (getBudgets_on uid now es bs))
     = sum_list (map (\<lambda>c. sp_totalSpent (c_spending c))
         (br_budgets (getBudgets_on uid now es bs)))"
  "bs_budgetsInWarning (br_summary (getBudgets_on uid now es bs))
     = length (filter (\<lambda>c. sp_status (c_spending c) = ''warning'')
         (br_budgets (getBudgets_on uid now es bs)))"
  "bs_budgetsExceeded (br_summary (getBudgets_on uid now es bs))
     = length (filter (\<lambda>c. sp_totalSpent (c_spending c) > b_amount (c_budget c))
         (br_budgets (getBudgets_on uid now es bs)))"
  by (simp_all add: getBudgets_on_def Let_def foldl_add_sum comp_def compare_budget_fields)

text \<open>The dashboard counts by tier, so there the two counts are as the spec has them.\<close>

lemma dash_entry_budget [simp]: "di_budget (dash_entry m budget) = budget"
  by (simp add: dash_entry_def Let_def split: prod.splits)

lemma getBudgetDashboard_entries:
  "dr_dashboardData (getBudgetDashboard uid now \<lparr>pq_month = Some m, pq_year = Some y\<rparr> bs es)
     = map (dash_entry (expense_map (group_spent
             (filter (\<lambda>e. e_user e = uid \<and> in_range (date_start y (m - 1)) (date_end y m) e)
                es))))
         (filter (\<lambda>b. b_user b = uid \<and> b_month b = m \<and> b_year b = y \<and> b_isActive b) bs)"
  by (simp add: getBudgetDashboard_def Let_def)

lemma getBudgetDashboard_summary:
  "ds_totalBudgetAmount (dr_summary (getBudgetDashboard uid now q bs es))
     = sum_list (map (\<lambda>i. b_amount (di_budget i))
         (dr_dashboardData (getBudgetDashboard uid now q bs es)))"
  "ds_totalSpent (dr_summary (getBudgetDashboard uid now q bs es))
     = sum_list (map (\<lambda>i. dsp_totalSpent (di_spending i))
         (dr_dashboardData (getBudgetDashboard uid now q bs es)))"
  "ds_budgetsExceeded (dr_summary (getBudgetDashboard uid now q bs es))
     = length (filter (\<lambda>i. vi_status (di_visualIndicator i) = ''danger'')
         (dr_dashboardData (getBudgetDashboard uid now q bs es)))"
  "ds_budgetsInWarning (dr_summary (getBudgetDashboard uid now q bs es))
     = length (filter (\<lambda>i. vi_status (di_visualIndicator i) = ''warning'')
         (dr_dashboardData (getBudgetDashboard uid now q bs es)))"
  by (simp_all add: getBudgetDashboard_def Let_def foldl_add_sum comp_def)

text \<open>
  C6.  The summary of \<open>getBudgets\<close> counts as exceeded the budgets whose total spent is
  strictly above the amount.  A budget of 100 with exactly 100 spent has the tier
  exceeded and is not counted; the dashboard counts it.
\<close>

theorem getBudgets_exceeded_count:
  "map (\<lambda>c. sp_status (c_spending c)) (br_budgets at_limit) = [''exceeded'']
   \<and> map (\<lambda>c. sp_percentageUsed (c_spending c)) (br_budgets at_limit) = [100]
   \<and> bs_budgetsExceeded (br_summary at_limit) = 0
   \<and> ds_budgetsExceeded (dr_summary at_limit_dashboard) = 1"
  by code_simp

section \<open>The insight generator\<close>

lemma js_add_zero [simp]: "js_add (Num 0) a = a" "js_add a (Num 0) = a"
  by (cases a; simp)+




lemma push_appends:
  "push_trend d ins = ins @ push_trend d []"
  "push_category d ins = ins @ push_category d []"
  "push_projection d ins = ins @ push_projection d []"
  "push_expense d ins = ins @ push_expense d []"
  "push_distribution d ins = ins @ push_distribution d []"
  by (simp_all add: push_trend_def push_category_def push_projection_def push_expense_def
      push_distribution_def Let_def split: list.splits)

text \<open>The list is the concatenation of what each block pushes on its own.\<close>

lemma insights_by_rule:
  "generateSpendingInsights d
     = push_trend d [] @ push_category d [] @ push_projection d [] @ push_expense d []
       @ push_distribution d []"
  unfolding generateSpendingInsights_def Let_def
  by (subst push_appends(5), subst push_appends(4), subst push_appends(3),
      subst push_appends(2)) simp





lemma insights_no_expenses:
  assumes "categoryBreakdown d = []" and "topExpenses d = []"
  shows "generateSpendingInsights d = push_trend d [] @ push_projection d []"
  unfolding insights_by_rule
  using assms by (simp add: push_category_def push_expense_def push_distribution_def)

section \<open>The monthly summary\<close>

lemma summary_defaults:
  "getMonthlyExpenseSummary uid now \<lparr>pq_month = None, pq_year = None\<rparr> es
     = monthly_summary uid now (d_month now) (d_year now) es"
  "getMonthlyExpenseSummary uid now \<lparr>pq_month = Some m, pq_year = Some y\<rparr> es
     = monthly_summary uid now m y es"
  by (simp_all add: getMonthlyExpenseSummary_def)

lemma summary_insights:
  "mr_insights (monthly_summary uid now m y es)
     = generateSpendingInsights
         \<lparr>totalSpending = ms_totalSpending (mr_summary (monthly_summary uid now m y es)),
          averagePerDay = ms_averagePerDay (mr_summary (monthly_summary uid now m y es)),
          categoryBreakdown = map sh_stats (mr_categoryBreakdown (monthly_summary uid now m y es)),
          monthOverMonthChange =
            (if mc_prevTotal (mr_comparison (monthly_summary uid now m y es)) > 0
             then ((ms_totalSpending (mr_summary (monthly_summary uid now m y es))
                    - mc_prevTotal (mr_comparison (monthly_summary uid now m y es)))
                   / mc_prevTotal (mr_comparison (monthly_summary uid now m y es))) * 100
             else 0),
          daysInMonth = ms_daysInMonth (mr_summary (monthly_summary uid now m y es)),
          isCurrentMonth = (m = d_month now \<and> y = d_year now),
          currentDay = d_day now,
          topExpenses = mr_topExpenses (monthly_summary uid now m y es)\<rparr>"
  by (simp add: monthly_summary_def Let_def comp_def)





lemma date_end_day: "28 \<le> d_day (date_end y mi)"
  by (simp add: date_end_def Let_def days_in_month_def)

lemma date_end_month:
  assumes "1 \<le> m" and "m \<le> 12"
  shows "date_end y m = \<lparr>d_year = full_year y, d_month = m,
            d_day = days_in_month (full_year y) m, d_ms = 86399999\<rparr>"
proof (cases "m = 12")
  case True
  then show ?thesis by (simp add: date_end_def days_in_month_def)
next
  case False
  with assms have "m div 12 = 0" "m mod 12 = m" by simp_all
  with assms show ?thesis by (simp add: date_end_def Let_def)
qed

lemma date_start_month:
  assumes "1 \<le> m" and "m \<le> 12"
  shows "date_start y (m - 1) = \<lparr>d_year = full_year y, d_month = m, d_day = 1, d_ms = 0\<rparr>"
proof -
  from assms have "(m - 1) div 12 = 0" "(m - 1) mod 12 = m - 1" by simp_all
  then show ?thesis by (simp add: date_start_def)
qed

lemma in_window_iff:
  assumes "wf_date now" and "1 \<le> m" and "m \<le> 12"
  shows "(date_le (date_start y (m - 1)) now \<and> date_le now (date_end y m))
           \<longleftrightarrow> (m = d_month now \<and> y = d_year now)"
proof -
  have fy: "full_year y = d_year now \<longleftrightarrow> y = d_year now"
    using assms(1) by (auto simp: full_year_def wf_date_def)
  have "(date_le (date_start y (m - 1)) now \<and> date_le now (date_end y m))
           \<longleftrightarrow> (m = d_month now \<and> full_year y = d_year now)"
    unfolding date_start_month [OF assms(2,3)] date_end_month [OF assms(2,3)]
    using assms(1)
    by (auto simp: date_le_def date_key_def less_eq_prod_def wf_date_def)
  with fy show ?thesis by simp
qed

lemma per_day_divisor:
  "ms_averagePerDay (mr_summary (monthly_summary uid now m y es))
     = (if m = d_month now \<and> y = d_year now
        then js_div (ms_totalSpending (mr_summary (monthly_summary uid now m y es)))
               (real_of_int (d_day now))
        else js_div (ms_totalSpending (mr_summary (monthly_summary uid now m y es)))
               (real_of_int (d_day (date_end y m))))"
  by (simp add: monthly_summary_def Let_def)

text \<open>
  C7.  For a month from 1 to 12 and the clock of the server, the average per day is the
  month's total divided by the current day of the month when the clock lies inside the
  month's window, and divided by the number of days of the month otherwise.
\<close>

theorem average_per_day:
  assumes "wf_date now" and "1 \<le> m" and "m \<le> 12"
  shows "ms_averagePerDay (mr_summary (monthly_summary uid now m y es))
     = (if date_le (date_start y (m - 1)) now \<and> date_le now (date_end y m)
        then Num (ms_totalSpending (mr_summary (monthly_summary uid now m y es))
                  / real_of_int (d_day now))
        else Num (ms_totalSpending (mr_summary (monthly_summary uid now m y es))
                  / real_of_int (days_in_month (full_year y) m)))"
proof -
  have d: "real_of_int (d_day now) \<noteq> 0"
    using assms(1) by (simp add: wf_date_def)
  have e: "real_of_int (days_in_month (full_year y) m) \<noteq> 0"
    by (simp add: days_in_month_def)
  show ?thesis
    unfolding per_day_divisor in_window_iff [OF assms]
    using d e by (simp add: js_div_def date_end_month [OF assms(2,3)])
qed

theorem average_per_day_witness:
  "wf_date jun24 \<and> (1::int) \<le> 6 \<and> (6::int) \<le> 12 \<and> (1::int) \<le> 5 \<and> (5::int) \<le> 12
   \<and> ms_averagePerDay (mr_summary (monthly_summary 1 jun24 6 2024 trend_expenses))
       = Num (115 / 3)
   \<and> ms_averagePerDay (mr_summary (monthly_summary 1 jun24 5 2024 trend_expenses))
       = Num (100 / 31)"
proof -
  have h: "wf_date jun24"
    by code_simp
  have m: "(1::int) \<le> 6" "(6::int) \<le> 12" "(1::int) \<le> 5" "(5::int) \<le> 12"
    by simp_all
  have c: "date_le (date_start 2024 (6 - 1)) jun24 \<and> date_le jun24 (date_end 2024 6)"
    "\<not> (date_le (date_start 2024 (5 - 1)) jun24 \<and> date_le jun24 (date_end 2024 5))"
    "ms_totalSpending (mr_summary (monthly_summary 1 jun24 6 2024 trend_expenses)) = 115"
    "ms_totalSpending (mr_summary (monthly_summary 1 jun24 5 2024 trend_expenses)) = 100"
    "d_day jun24 = 3" "days_in_month (full_year 2024) 5 = 31"
    by code_simp+
  have a: "ms_averagePerDay (mr_summary (monthly_summary 1 jun24 6 2024 trend_expenses))
      = Num (115 / 3)"
    using average_per_day [OF h m(1,2), of 1 2024 trend_expenses]
    by (simp only: c if_True) simp
  have b: "ms_averagePerDay (mr_summary (monthly_summary 1 jun24 5 2024 trend_expenses))
      = Num (100 / 31)"
    using average_per_day [OF h m(3,4), of 1 2024 trend_expenses]
    by (simp only: c if_False) simp
  from h m a b show ?thesis
    by blast
qed

lemma summary_totals:
  "ms_totalSpending (mr_summary (monthly_summary uid now m y es))
     = sum_list (map e_amount (filter (\<lambda>e. e_user e = uid
         \<and> in_range (date_start y (m - 1)) (date_end y m) e) es))"
  "ms_totalExpenses (mr_summary (monthly_summary uid now m y es))
     = length (filter (\<lambda>e. e_user e = uid
         \<and> in_range (date_start y (m - 1)) (date_end y m) e) es)"
proof -
  have i: "sum_list (map e_amount (insort_key k x xs)) = e_amount x + sum_list (map e_amount xs)"
    for k :: "expense \<Rightarrow> int \<times> int \<times> int \<times> int" and x xs
    by (induction xs) auto
  have "sum_list (map e_amount (sort_key k xs)) = sum_list (map e_amount xs)"
    for k :: "expense \<Rightarrow> int \<times> int \<times> int \<times> int" and xs
    by (induction xs) (auto simp: i)
  then have "sum_list (map e_amount (rev (sort_key k xs))) = sum_list (map e_amount xs)"
    for k :: "expense \<Rightarrow> int \<times> int \<times> int \<times> int" and xs
    by (simp add: rev_map [symmetric])
  then show "ms_totalSpending (mr_summary (monthly_summary uid now m y es))
     = sum_list (map e_amount (filter (\<lambda>e. e_user e = uid
         \<and> in_range (date_start y (m - 1)) (date_end y m) e) es))"
    by (simp add: monthly_summary_def Let_def foldl_add_sum)
  show "ms_totalExpenses (mr_summary (monthly_summary uid now m y es))
     = length (filter (\<lambda>e. e_user e = uid
         \<and> in_range (date_start y (m - 1)) (date_end y m) e) es)"
    by (simp add: monthly_summary_def Let_def)
qed

lemma no_expense_parts:
  assumes "filter (\<lambda>e. e_user e = uid \<and> in_range (date_start y (m - 1)) (date_end y m) e) es = []"
  shows "mr_categoryBreakdown (monthly_summary uid now m y es) = []"
    and "mr_topExpenses (monthly_summary uid now m y es) = []"
    and "ms_totalSpending (mr_summary (monthly_summary uid now m y es)) = 0"
    and "ms_totalExpenses (mr_summary (monthly_summary uid now m y es)) = 0"
  unfolding summary_totals assms
  by (simp_all add: monthly_summary_def Let_def assms group_category_def)

text \<open>
  C5, as amended.  When no expense of the user lies in the window, the summary has
  total 0, count 0, average per day 0 and an empty category breakdown, and no category,
  expense or distribution insight.  It still has the projection insight when the month
  is the current one, and a trend insight (a fall of 100 percent, level warning) when
  the previous month had spending; the list of insights is empty in the other case only.
\<close>

theorem empty_month:
  assumes "wf_date now"
    and "filter (\<lambda>e. e_user e = uid \<and> in_range (date_start y (m - 1)) (date_end y m) e) es = []"
  shows "(let r = monthly_summary uid now m y es in
          ms_totalSpending (mr_summary r) = 0 \<and> ms_totalExpenses (mr_summary r) = 0
          \<and> ms_averagePerDay (mr_summary r) = Num 0 \<and> mr_categoryBreakdown r = []
          \<and> mr_insights r =
              (if 0 < mc_prevTotal (mr_comparison r)
               then [\<lparr>i_type = ''trend'', i_level = ''warning'',
                      i_title = ''Monthly Spending decreased'', i_value = Num (- 100)\<rparr>]
               else [])
              @ (if m = d_month now \<and> y = d_year now
                 then [\<lparr>i_type = ''projection'', i_level = ''info'',
                        i_title = ''Monthly Projection'', i_value = Num 0\<rparr>]
                 else []))"
proof -
  note p = no_expense_parts [OF assms(2), of now]
  have d: "real_of_int (d_day now) \<noteq> 0"
    using assms(1) by (simp add: wf_date_def)
  have e: "real_of_int (d_day (date_end y m)) \<noteq> 0"
    using date_end_day [of y m] by simp
  have a: "ms_averagePerDay (mr_summary (monthly_summary uid now m y es)) = Num 0"
    unfolding per_day_divisor p using d e by (simp add: js_div_def)
  have i: "mr_insights (monthly_summary uid now m y es) =
              (if 0 < mc_prevTotal (mr_comparison (monthly_summary uid now m y es))
               then [\<lparr>i_type = ''trend'', i_level = ''warning'',
                      i_title = ''Monthly Spending decreased'', i_value = Num (- 100)\<rparr>]
               else [])
              @ (if m = d_month now \<and> y = d_year now
                 then [\<lparr>i_type = ''projection'', i_level = ''info'',
                        i_title = ''Monthly Projection'', i_value = Num 0\<rparr>]
                 else [])"
    unfolding summary_insights p a
    by (subst insights_no_expenses) (simp_all add: p push_trend_def push_projection_def)
  from p a i show ?thesis
    unfolding Let_def by simp
qed

theorem empty_month_witness:
  "wf_date jun24
   \<and> filter (\<lambda>e. e_user e = 1 \<and> in_range (date_start 2024 (5 - 1)) (date_end 2024 5) e)
         april_expenses = []
   \<and> ms_totalSpending (mr_summary (monthly_summary 1 jun24 5 2024 april_expenses)) = 0
   \<and> ms_averagePerDay (mr_summary (monthly_summary 1 jun24 5 2024 april_expenses)) = Num 0
   \<and> mr_insights (monthly_summary 1 jun24 5 2024 april_expenses)
       = [\<lparr>i_type = ''trend'', i_level = ''warning'', i_title = ''Monthly Spending decreased'',
           i_value = Num (- 100)\<rparr>]"
proof -
  have h: "wf_date jun24"
    by code_simp
  have e: "filter (\<lambda>e. e_user e = 1 \<and> in_range (date_start 2024 (5 - 1)) (date_end 2024 5) e)
         april_expenses = []"
    by code_simp
  have c: "mc_prevTotal (mr_comparison (monthly_summary 1 jun24 5 2024 april_expenses)) = 10"
    "d_month jun24 = 6"
    by code_simp+
  note t = empty_month [OF h e, unfolded Let_def c]
  from t h e show ?thesis
    by simp
qed

text \<open>
  C5 as stated fails: the summary of the current month, with no expense at all, emits the
  projection insight.
\<close>

theorem empty_month_still_projects:
  "ms_totalSpending (mr_summary empty_current) = 0
   \<and> ms_totalExpenses (mr_summary empty_current) = 0
   \<and> mr_categoryBreakdown empty_current = []
   \<and> mr_insights empty_current
       = [\<lparr>i_type = ''projection'', i_level = ''info'', i_title = ''Monthly Projection'',
           i_value = Num 0\<rparr>]
   \<and> mr_insights empty_current \<noteq> []"
  by code_simp

section \<open>Pagination\<close>

lemma cursor_page:
  assumes "1 \<le> page" and "1 \<le> limit"
  shows "cursor ((page - 1) * limit) limit ms
           = Inr (take (nat limit) (drop (nat ((page - 1) * limit)) ms))"
proof -
  from assms have "0 \<le> (page - 1) * limit" by simp
  then have "\<not> (page - 1) * limit < 0" by linarith
  with assms show ?thesis by (simp add: cursor_def Let_def)
qed

lemma has_next_nat:
  assumes "0 < l"
  shows "(int s + int (length (take l (drop s ms))) < int (length ms))
           \<longleftrightarrow> drop (s + l) ms \<noteq> []"
  using assms by (auto simp: min_def)

lemma has_next_iff:
  assumes "1 \<le> page" and "1 \<le> limit"
  shows "((page - 1) * limit + int (length (take (nat limit) (drop (nat ((page - 1) * limit)) ms)))
            < int (length ms))
         \<longleftrightarrow> drop (nat (page * limit)) ms \<noteq> []"
proof -
  define s where "s = nat ((page - 1) * limit)"
  define l where "l = nat limit"
  from assms have nn: "0 \<le> (page - 1) * limit" by simp
  then have s: "(page - 1) * limit = int s" by (simp add: s_def)
  from assms have l: "limit = int l" "0 < l" by (simp_all add: l_def)
  have "page * limit = (page - 1) * limit + limit" by (simp add: algebra_simps)
  then have "page * limit = int (s + l)" using s l by simp
  then have pl: "nat (page * limit) = s + l" by simp
  have "(int s + int (length (take l (drop s ms))) < int (length ms))
           \<longleftrightarrow> drop (s + l) ms \<noteq> []"
    using l(2) by (rule has_next_nat)
  then show ?thesis
    unfolding pl s [symmetric] s_def [symmetric] l_def [symmetric] .
qed

text \<open>
  C9.  For a page and a limit of at least 1 over the n documents that match, the handler
  returns the documents of that page with currentPage = page, totalPages = ceil(n / limit),
  totalExpenses = n, hasPrev iff page > 1, and hasNext iff skip plus the number returned
  is below n, which is to say iff documents remain after the page.
\<close>

theorem pagination_fields:
  assumes "1 \<le> page" and "1 \<le> limit"
  shows "\<exists>expenses pg. getExpenses (Some page) (Some limit) ms = Inr (expenses, pg)
     \<and> expenses = take (nat limit) (drop (nat ((page - 1) * limit)) ms)
     \<and> currentPage pg = page
     \<and> totalPages pg = Num (real_of_int \<lceil>real (length ms) / real_of_int limit\<rceil>)
     \<and> totalExpenses pg = length ms
     \<and> (hasPrev pg \<longleftrightarrow> page > 1)
     \<and> (hasNext pg \<longleftrightarrow> (page - 1) * limit + int (length expenses) < int (length ms))
     \<and> (hasNext pg \<longleftrightarrow> drop (nat (page * limit)) ms \<noteq> [])"
proof -
  from assms(2) have "real_of_int limit \<noteq> 0" by simp
  then have "js_ceil (js_div (real (length ms)) (real_of_int limit))
      = Num (real_of_int \<lceil>real (length ms) / real_of_int limit\<rceil>)"
    by (simp add: js_div_def)
  then show ?thesis
    unfolding getExpenses_def Let_def option.case cursor_page [OF assms]
    using has_next_iff [OF assms, of ms]
    by simp
qed

theorem pagination_fields_witness:
  "(1::int) \<le> 2
   \<and> (\<exists>expenses pg. getExpenses (Some 2) (Some 2) five = Inr (expenses, pg)
         \<and> map e_amount expenses = [3, 4]
         \<and> currentPage pg = 2 \<and> totalPages pg = Num 3 \<and> totalExpenses pg = 5
         \<and> hasPrev pg \<and> hasNext pg)"
proof -
  have h: "(1::int) \<le> 2"
    by simp
  have c: "map e_amount (take (nat 2) (drop (nat ((2 - 1) * 2)) five)) = [3, 4]"
    "real_of_int \<lceil>real (length five) / real_of_int 2\<rceil> = 3"
    "length five = 5" "drop (nat (2 * 2)) five \<noteq> []"
    by code_simp+
  from pagination_fields [OF h h, of five] obtain expenses pg where
    "getExpenses (Some 2) (Some 2) five = Inr (expenses, pg)"
    "expenses = take (nat 2) (drop (nat ((2 - 1) * 2)) five)"
    "currentPage pg = 2"
    "totalPages pg = Num (real_of_int \<lceil>real (length five) / real_of_int 2\<rceil>)"
    "totalExpenses pg = length five"
    "hasPrev pg \<longleftrightarrow> (2::int) > 1"
    "hasNext pg \<longleftrightarrow> drop (nat (2 * 2)) five \<noteq> []"
    by blast
  with c have "getExpenses (Some 2) (Some 2) five = Inr (expenses, pg) \<and> map e_amount expenses = [3, 4]
     \<and> currentPage pg = 2 \<and> totalPages pg = Num 3 \<and> totalExpenses pg = 5
     \<and> hasPrev pg \<and> hasNext pg"
    by simp
  then have "\<exists>expenses pg. getExpenses (Some 2) (Some 2) five = Inr (expenses, pg)
     \<and> map e_amount expenses = [3, 4]
     \<and> currentPage pg = 2 \<and> totalPages pg = Num 3 \<and> totalExpenses pg = 5
     \<and> hasPrev pg \<and> hasNext pg"
    by (intro exI)
  with h show ?thesis
    by (rule conjI)
qed

end
